theory Spec2Isabelle
  imports Main "HOL-Library.AList"
begin

section \<open>Exceptions\<close>

text \<open>
  The exception classes of \<^verbatim>\<open>src/utils/exceptions.py\<close> together with the
  library classes that the \<^verbatim>\<open>except\<close> clauses of the sources name.
  \<open>mro\<close> lists a class and its superclasses; an \<^verbatim>\<open>except C\<close> clause
  catches every exception whose class has \<open>C\<close> in that list.
\<close>

datatype exn_class =
    Exception | RuntimeError | AttributeError
  | ValueError | UnicodeError | UnicodeDecodeError
  | OSError | FileNotFoundError | NotADirectoryError | IsADirectoryError | PermissionError
  | SubprocessError | CalledProcessError | TimeoutExpired
  | ClientError
  | InfrastructureError | InventoryError | CloudProviderError | SSHManagerError
  | PlaybookError | ConfigurationError | ResourceNotFoundError | AuthenticationError
  | ValidationError

fun mro :: "exn_class \<Rightarrow> exn_class list" where
  "mro Exception = [Exception]"
| "mro RuntimeError = [RuntimeError, Exception]"
| "mro AttributeError = [AttributeError, Exception]"
| "mro ValueError = [ValueError, Exception]"
| "mro UnicodeError = [UnicodeError, ValueError, Exception]"
| "mro UnicodeDecodeError = [UnicodeDecodeError, UnicodeError, ValueError, Exception]"
| "mro OSError = [OSError, Exception]"
| "mro NotADirectoryError = [NotADirectoryError, OSError, Exception]"
| "mro FileNotFoundError = [FileNotFoundError, OSError, Exception]"
| "mro IsADirectoryError = [IsADirectoryError, OSError, Exception]"
| "mro PermissionError = [PermissionError, OSError, Exception]"
| "mro SubprocessError = [SubprocessError, Exception]"
| "mro CalledProcessError = [CalledProcessError, SubprocessError, Exception]"
| "mro TimeoutExpired = [TimeoutExpired, SubprocessError, Exception]"
| "mro ClientError = [ClientError, Exception]"
| "mro InfrastructureError = [InfrastructureError, Exception]"
| "mro c = [c, InfrastructureError, Exception]"

text \<open>
  An exception value: its class, \<^verbatim>\<open>str(e)\<close> and \<^verbatim>\<open>__cause__\<close>
  (set by \<^verbatim>\<open>raise ... from e\<close>). botocore's \<^verbatim>\<open>ClientError\<close> also carries
  \<^verbatim>\<open>response['Error']['Code']\<close> and \<^verbatim>\<open>['Message']\<close>;
  \<^verbatim>\<open>CalledProcessError\<close> carries \<^verbatim>\<open>stderr\<close>.
\<close>

datatype exn =
    Exn exn_class string "exn option"
  | ClientErr string string string
  | CalledProcessErr string string

fun class_of :: "exn \<Rightarrow> exn_class" where
  "class_of (Exn c _ _) = c"
| "class_of (ClientErr _ _ _) = ClientError"
| "class_of (CalledProcessErr _ _) = CalledProcessError"

fun str :: "exn \<Rightarrow> string" where
  "str (Exn _ m _) = m"
| "str (ClientErr m _ _) = m"
| "str (CalledProcessErr m _) = m"

fun cause :: "exn \<Rightarrow> exn option" where
  "cause (Exn _ _ c) = c"
| "cause _ = None"

fun error_message :: "exn \<Rightarrow> string" where
  "error_message (ClientErr _ _ m) = m"
| "error_message _ = []"

fun stderr_of :: "exn \<Rightarrow> string" where
  "stderr_of (CalledProcessErr _ s) = s"
| "stderr_of _ = []"

definition isinstance :: "exn \<Rightarrow> exn_class \<Rightarrow> bool" where
  "isinstance e c = List.member (mro (class_of e)) c"

section \<open>Inventory generation (\<^verbatim>\<open>src/inventory/aws_inventory.py\<close>)\<close>

subsection \<open>Data\<close>

text \<open>
  One element of \<^verbatim>\<open>reservation['Instances']\<close> as
  \<^verbatim>\<open>describe_instances\<close> returns it. The keys read with
  \<^verbatim>\<open>instance.get\<close> may be missing, hence the options.
\<close>

record ec2_instance =
  InstanceId :: string
  InstanceType :: string
  State_Name :: string
  PrivateIpAddress :: "string option"
  PublicIpAddress :: "string option"
  Tags :: "(string \<times> string) list option"

record reservation =
  Instances :: "ec2_instance list"

type_synonym ec2_filter = "string \<times> string list"

text \<open>
  The EC2 client: \<^verbatim>\<open>describe_instances(Filters=filters)\<close> either raises
  or returns \<^verbatim>\<open>response['Reservations']\<close>.
\<close>

type_synonym ec2_client = "ec2_filter list \<Rightarrow> exn + reservation list"

text \<open>
  The dictionary \<^verbatim>\<open>instance_info\<close> built by \<^verbatim>\<open>get_instances\<close>
  (keys \<^verbatim>\<open>id\<close>, \<^verbatim>\<open>type\<close>, \<^verbatim>\<open>state\<close>,
  \<^verbatim>\<open>private_ip\<close>, \<^verbatim>\<open>public_ip\<close>, \<^verbatim>\<open>tags\<close>).
  Python dictionaries keep insertion order and overwrite in place, which is
  \<open>AList.update\<close> on an association list; \<^verbatim>\<open>d.get(k)\<close> is \<open>map_of d k\<close>.
\<close>

record instance_info =
  id' :: string
  type' :: string
  state :: string
  private_ip :: "string option"
  public_ip :: "string option"
  tags :: "(string \<times> string) list"

record host_vars =
  ansible_host :: "string option"
  ansible_user :: string
  instance_id :: string
  instance_type :: string

text \<open>
  The inventory dictionary: \<open>all_hosts\<close> is \<^verbatim>\<open>inventory['all']['hosts']\<close>,
  \<open>webservers_hosts\<close> is
  \<^verbatim>\<open>inventory['all']['children']['webservers']['hosts']\<close>.
\<close>

record inventory =
  all_hosts :: "(string \<times> host_vars) list"
  webservers_hosts :: "(string \<times> host_vars) list"

subsection \<open>\<^verbatim>\<open>get_instances\<close>\<close>

definition tags_dict :: "(string \<times> string) list option \<Rightarrow> (string \<times> string) list" where
  "tags_dict ts =
     foldl (\<lambda>d (k, v). AList.update k v d) [] (case ts of None \<Rightarrow> [] | Some l \<Rightarrow> l)"

definition instance_info_of :: "ec2_instance \<Rightarrow> instance_info" where
  "instance_info_of i =
     \<lparr> id' = InstanceId i,
       type' = InstanceType i,
       state = State_Name i,
       private_ip = PrivateIpAddress i,
       public_ip = PublicIpAddress i,
       tags = tags_dict (Tags i) \<rparr>"

text \<open>The two nested loops over reservations and their instances.\<close>

definition collect_running :: "reservation list \<Rightarrow> instance_info list" where
  "collect_running response =
     concat (map (\<lambda>r. concat (map (\<lambda>i. if State_Name i = ''running''
                                          then [instance_info_of i] else [])
                                   (Instances r)))
                 response)"

text \<open>The body of the \<^verbatim>\<open>try\<close> block.\<close>

definition get_instances_try ::
  "ec2_client \<Rightarrow> ec2_filter list option \<Rightarrow> exn + instance_info list" where
  "get_instances_try describe_instances filters =
     (let filters' = (case filters of None \<Rightarrow> [] | Some fs \<Rightarrow> fs) in
      case describe_instances filters' of
        Inl e \<Rightarrow> Inl e
      | Inr response \<Rightarrow>
          (let instances = collect_running response in
           if instances = []
           then Inl (Exn ResourceNotFoundError ''No running EC2 instances found'' None)
           else Inr instances))"

text \<open>
  The \<^verbatim>\<open>try\<close> block under its two handlers, in the order of the source:
  \<^verbatim>\<open>except ClientError\<close>, then \<^verbatim>\<open>except Exception\<close>.
\<close>

definition get_instances ::
  "ec2_client \<Rightarrow> ec2_filter list option \<Rightarrow> exn + instance_info list" where
  "get_instances describe_instances filters =
     (case get_instances_try describe_instances filters of
        Inr instances \<Rightarrow> Inr instances
      | Inl e \<Rightarrow>
          if isinstance e ClientError
          then Inl (Exn CloudProviderError
                      (''Failed to get EC2 instances: '' @ error_message e) (Some e))
          else if isinstance e Exception
          then Inl (Exn CloudProviderError
                      (''Unexpected error getting EC2 instances: '' @ str e) (Some e))
          else Inl e)"

subsection \<open>\<^verbatim>\<open>generate_inventory\<close>\<close>

text \<open>
  Python's \<^verbatim>\<open>a or b\<close> on optional strings: \<^verbatim>\<open>a\<close> when it is
  truthy (neither \<^verbatim>\<open>None\<close> nor the empty string), otherwise \<^verbatim>\<open>b\<close>.
\<close>

definition py_or :: "string option \<Rightarrow> string option \<Rightarrow> string option" where
  "py_or a b = (case a of None \<Rightarrow> b | Some s \<Rightarrow> if s = [] then b else a)"

definition host_vars_of :: "instance_info \<Rightarrow> host_vars" where
  "host_vars_of instance =
     \<lparr> ansible_host = py_or (public_ip instance) (private_ip instance),
       ansible_user = ''ubuntu'',
       instance_id = id' instance,
       instance_type = type' instance \<rparr>"

definition is_webserver :: "instance_info \<Rightarrow> bool" where
  "is_webserver instance = (map_of (tags instance) ''Role'' = Some ''webserver'')"

text \<open>One iteration of the loop over \<^verbatim>\<open>instances\<close>.\<close>

definition add_instance :: "inventory \<Rightarrow> instance_info \<Rightarrow> inventory" where
  "add_instance inventory instance =
     (let host_vars = host_vars_of instance;
          inventory' = inventory\<lparr> all_hosts :=
                         AList.update (id' instance) host_vars (all_hosts inventory) \<rparr>
      in if is_webserver instance
         then inventory'\<lparr> webservers_hosts :=
                 AList.update (id' instance) host_vars (webservers_hosts inventory') \<rparr>
         else inventory')"

definition empty_inventory :: inventory where
  "empty_inventory = \<lparr> all_hosts = [], webservers_hosts = [] \<rparr>"

definition build_inventory :: "instance_info list \<Rightarrow> inventory" where
  "build_inventory instances = foldl add_instance empty_inventory instances"

text \<open>
  The output file: \<open>open_w path\<close> is the exception that opening \<open>path\<close> for
  writing raises, if any; the store maps a path to the document last dumped there.
\<close>

type_synonym doc_store = "string \<Rightarrow> inventory option"

definition generate_inventory_try ::
  "ec2_client \<Rightarrow> (string \<Rightarrow> exn option) \<Rightarrow> string \<Rightarrow> doc_store \<Rightarrow> exn option \<times> doc_store" where
  "generate_inventory_try describe_instances open_w output_file store =
     (case get_instances describe_instances None of
        Inl e \<Rightarrow> (Some e, store)
      | Inr instances \<Rightarrow>
          (let inventory = build_inventory instances in
           case open_w output_file of
             None \<Rightarrow> (None, store(output_file \<mapsto> inventory))
           | Some e \<Rightarrow>
               if isinstance e OSError
               then (Some (Exn InventoryError
                             (''Failed to write inventory file: '' @ str e) (Some e)), store)
               else (Some e, store)))"

text \<open>
  The outer handlers: \<^verbatim>\<open>except (CloudProviderError, ResourceNotFoundError)\<close>,
  then \<^verbatim>\<open>except Exception\<close>. The result is the exception raised, if any.
\<close>

definition generate_inventory ::
  "ec2_client \<Rightarrow> (string \<Rightarrow> exn option) \<Rightarrow> string \<Rightarrow> doc_store \<Rightarrow> exn option \<times> doc_store" where
  "generate_inventory describe_instances open_w output_file store =
     (case generate_inventory_try describe_instances open_w output_file store of
        (None, store') \<Rightarrow> (None, store')
      | (Some e, store') \<Rightarrow>
          if isinstance e CloudProviderError \<or> isinstance e ResourceNotFoundError
          then (Some (Exn InventoryError
                        (''Failed to generate inventory: '' @ str e) (Some e)), store')
          else if isinstance e Exception
          then (Some (Exn InventoryError
                        (''Unexpected error generating inventory: '' @ str e) (Some e)), store')
          else (Some e, store'))"

section \<open>SSH key management (\<^verbatim>\<open>src/utils/ssh_manager.py\<close>)\<close>

subsection \<open>The operating system as the code sees it\<close>

text \<open>
  A file system maps a path to what is there: a regular file with its mode bits and
  its bytes, or a directory. The strings of the model are Python strings over the
  code points below 256; the bytes of a file are a list of characters too.
\<close>

datatype fnode = RegFile nat string | Directory nat

type_synonym fs = "string \<Rightarrow> fnode option"

definition quoted :: "string \<Rightarrow> string" where
  "quoted p = [CHR 0x27] @ p @ [CHR 0x27]"

text \<open>\<^verbatim>\<open>os.path.exists\<close>.\<close>

definition path_exists :: "fs \<Rightarrow> string \<Rightarrow> bool" where
  "path_exists files p = (files p \<noteq> None)"

text \<open>\<^verbatim>\<open>os.chmod\<close>: raises \<^verbatim>\<open>FileNotFoundError\<close> on a missing path.\<close>

definition chmod :: "string \<Rightarrow> nat \<Rightarrow> fs \<Rightarrow> exn + fs" where
  "chmod p m files =
     (case files p of
        None \<Rightarrow>
          Inl (Exn FileNotFoundError (''[Errno 2] No such file or directory: '' @ quoted p) None)
      | Some (RegFile _ text) \<Rightarrow> Inr (files(p \<mapsto> RegFile m text))
      | Some (Directory _) \<Rightarrow> Inr (files(p \<mapsto> Directory m)))"







text \<open>\<^verbatim>\<open>os.path.join\<close> of two components (posixpath).\<close>

definition path_join :: "string \<Rightarrow> string \<Rightarrow> string" where
  "path_join a b =
     (if (case b of [] \<Rightarrow> False | c # _ \<Rightarrow> c = CHR ''/'') then b
      else if a = [] \<or> last a = CHR ''/'' then a @ b
      else a @ ''/'' @ b)"



text \<open>\<^verbatim>\<open>str(port)\<close> for an integer.\<close>

function str_nat :: "nat \<Rightarrow> string" where
  "str_nat n =
     (if n < 10 then [char_of (48 + n)]
      else str_nat (n div 10) @ [char_of (48 + n mod 10)])"
  by pat_completeness auto
termination
  by (relation "measure (\<lambda>n. n)") auto

declare str_nat.simps [simp del]

definition str_int :: "int \<Rightarrow> string" where
  "str_int i = (if i < 0 then CHR ''-'' # str_nat (nat (- i)) else str_nat (nat i))"

text \<open>
  The external process capability, \<^verbatim>\<open>subprocess.run\<close> with
  \<^verbatim>\<open>capture_output=True, text=True\<close>: given the argument list, the
  \<^verbatim>\<open>check\<close> flag and the timeout, it either raises or returns a completed
  process, and the process may change the file system. The world also records
  every invocation, in order.
\<close>

record run_args =
  cmd :: "string list"
  check :: bool
  timeout :: "nat option"

record completed_process =
  returncode :: int
  stdout :: string
  stderr :: string

type_synonym subprocess = "run_args \<Rightarrow> fs \<Rightarrow> (exn + completed_process) \<times> fs"

record world =
  files :: fs
  calls :: "run_args list"

definition subprocess_run ::
  "subprocess \<Rightarrow> run_args \<Rightarrow> world \<Rightarrow> (exn + completed_process) \<times> world" where
  "subprocess_run run args w =
     (case run args (files w) of
        (r, files') \<Rightarrow> (r, \<lparr> files = files', calls = calls w @ [args] \<rparr>))"

subsection \<open>\<^verbatim>\<open>SSHManager\<close>\<close>

record ssh_manager =
  key_dir :: string

text \<open>The two handlers of \<^verbatim>\<open>generate_key_pair\<close>, in source order.\<close>

definition keygen_handlers :: "exn \<Rightarrow> exn" where
  "keygen_handlers e =
     (if isinstance e CalledProcessError
      then Exn SSHManagerError (''Failed to generate SSH key pair: '' @ stderr_of e) (Some e)
      else if isinstance e OSError
      then Exn SSHManagerError (''Failed to set key permissions: '' @ str e) (Some e)
      else e)"

definition generate_key_pair ::
  "subprocess \<Rightarrow> ssh_manager \<Rightarrow> string \<Rightarrow> string option \<Rightarrow> world
     \<Rightarrow> (exn + string \<times> string) \<times> world" where
  "generate_key_pair run self key_name passphrase w =
     (let private_key_path = path_join (key_dir self) key_name;
          public_key_path = private_key_path @ ''.pub''
      in if path_exists (files w) private_key_path
         then (Inr (private_key_path, public_key_path), w)
         else
           (let args = \<lparr> cmd = [''ssh-keygen'', ''-t'', ''ed25519'', ''-f'', private_key_path,
                                 ''-N'', (case passphrase of None \<Rightarrow> [] | Some s \<Rightarrow> s)],
                          check = True, timeout = None \<rparr>
            in case subprocess_run run args w of
                 (Inl e, w1) \<Rightarrow> (Inl (keygen_handlers e), w1)
               | (Inr result, w1) \<Rightarrow>
                   (case chmod private_key_path 384 (files w1) of
                      Inl e \<Rightarrow> (Inl (keygen_handlers e), w1)
                    | Inr files2 \<Rightarrow>
                        (case chmod public_key_path 420 files2 of
                           Inl e \<Rightarrow> (Inl (keygen_handlers e), w1\<lparr> files := files2 \<rparr>)
                         | Inr files3 \<Rightarrow>
                             (Inr (private_key_path, public_key_path),
                              w1\<lparr> files := files3 \<rparr>)))))"


definition ssh_cmd :: "string \<Rightarrow> int \<Rightarrow> string \<Rightarrow> string \<Rightarrow> string list" where
  "ssh_cmd private_key_path port user host =
     [''ssh'', ''-i'', private_key_path, ''-p'', str_int port,
      ''-o'', ''StrictHostKeyChecking=no'', ''-o'', ''BatchMode=yes'',
      user @ ''@'' @ host,
      ''echo '' @ quoted ''SSH connection successful'']"

definition verify_connectivity ::
  "subprocess \<Rightarrow> ssh_manager \<Rightarrow> string \<Rightarrow> string \<Rightarrow> string \<Rightarrow> int \<Rightarrow> world
     \<Rightarrow> (exn + bool) \<times> world" where
  "verify_connectivity run self host user key_name port w =
     (let private_key_path = path_join (key_dir self) key_name
      in if \<not> path_exists (files w) private_key_path
         then (Inl (Exn ResourceNotFoundError
                      (''Private key not found: '' @ private_key_path) None), w)
         else
           (let args = \<lparr> cmd = ssh_cmd private_key_path port user host,
                          check = False, timeout = Some 10 \<rparr>
            in case subprocess_run run args w of
                 (Inr result, w1) \<Rightarrow> (Inr (returncode result = 0), w1)
               | (Inl e, w1) \<Rightarrow>
                   if isinstance e TimeoutExpired then (Inr False, w1)
                   else if isinstance e CalledProcessError then (Inr False, w1)
                   else if isinstance e Exception
                   then (Inl (Exn SSHManagerError
                                (''Unexpected error connecting to '' @ host @ '': '' @ str e)
                                (Some e)), w1)
                   else (Inl e, w1)))"

section \<open>The command line (\<^verbatim>\<open>main.py\<close>)\<close>

text \<open>
  The namespace that \<^verbatim>\<open>parser.parse_args()\<close> returns: no subcommand, or
  one of the three subcommands with its own attributes.
\<close>

datatype parsed_args =
    NoCommand
  | InventoryArgs string string string
  | ProvisionArgs string string "string list option"
  | ConfigureArgs string string "string list option"

fun command :: "parsed_args \<Rightarrow> string option" where
  "command NoCommand = None"
| "command (InventoryArgs provider region output) = Some ''inventory''"
| "command (ProvisionArgs playbook inventory_file extra_vars) = Some ''provision''"
| "command (ConfigureArgs playbook inventory_file extra_vars) = Some ''configure''"

text \<open>
  What \<^verbatim>\<open>main\<close> can do to the outside: write a log line, print the help
  text, or call one of the two functions the module imports,
  \<^verbatim>\<open>generate_aws_inventory(region, output_file)\<close> and
  \<^verbatim>\<open>setup_ssh_key(key_name, passphrase)\<close>.
\<close>

datatype log_level = INFO | WARNING | ERROR

datatype effect =
    Log log_level string
  | PrintHelp
  | Call_generate_aws_inventory string string
  | Call_setup_ssh_key string "string option"

fun join_str :: "string \<Rightarrow> string list \<Rightarrow> string" where
  "join_str sep [] = []"
| "join_str sep [x] = x"
| "join_str sep (x # y # ys) = x @ sep @ join_str sep (y # ys)"

definition required_vars :: "(string \<times> string list) list" where
  "required_vars =
     [(''AWS'', [''AWS_ACCESS_KEY_ID'', ''AWS_SECRET_ACCESS_KEY'']),
      (''GCP'', [''GOOGLE_APPLICATION_CREDENTIALS'']),
      (''Azure'', [''AZURE_SUBSCRIPTION_ID'', ''AZURE_TENANT_ID'',
                   ''AZURE_CLIENT_ID'', ''AZURE_CLIENT_SECRET''])]"

definition getenv_falsy :: "(string \<Rightarrow> string option) \<Rightarrow> string \<Rightarrow> bool" where
  "getenv_falsy environ var = (case environ var of None \<Rightarrow> True | Some v \<Rightarrow> v = [])"

definition missing_warnings :: "(string \<Rightarrow> string option) \<Rightarrow> effect list" where
  "missing_warnings environ =
     concat (map (\<lambda>(provider, vars_list).
                    (let missing_vars = filter (getenv_falsy environ) vars_list
                     in if missing_vars \<noteq> []
                        then [Log WARNING (''Missing environment variables for '' @ provider
                                @ '': '' @ join_str '', '' missing_vars)]
                        else []))
                 required_vars)"

text \<open>
  \<^verbatim>\<open>validate_environment\<close>: \<open>version_info\<close> is the major and minor number
  of \<^verbatim>\<open>sys.version_info\<close>, \<open>environ\<close> the process environment.
\<close>

definition validate_environment ::
  "nat \<times> nat \<Rightarrow> (string \<Rightarrow> string option) \<Rightarrow> exn option \<times> effect list" where
  "validate_environment version_info environ =
     (if fst version_info < 3 \<or> (fst version_info = 3 \<and> snd version_info < 9)
      then (Some (Exn RuntimeError ''Python 3.9 or higher is required'' None), [])
      else (None, missing_warnings environ))"

text \<open>
  The three handlers. Each reads the attributes of its own subcommand; on another
  namespace the attribute access raises \<^verbatim>\<open>AttributeError\<close>.
\<close>

fun handle_inventory :: "parsed_args \<Rightarrow> exn option \<times> effect list" where
  "handle_inventory (InventoryArgs provider region output) =
     (None, [Log INFO (''Generating inventory for '' @ provider @ '' in '' @ region)])"
| "handle_inventory _ =
     (Some (Exn AttributeError
              (quoted ''Namespace'' @ '' object has no attribute '' @ quoted ''provider'') None),
      [])"

fun handle_provision :: "parsed_args \<Rightarrow> exn option \<times> effect list" where
  "handle_provision (ProvisionArgs playbook inventory_file extra_vars) =
     (None, [Log INFO (''Provisioning servers using playbook: '' @ playbook)])"
| "handle_provision (ConfigureArgs playbook inventory_file extra_vars) =
     (None, [Log INFO (''Provisioning servers using playbook: '' @ playbook)])"
| "handle_provision _ =
     (Some (Exn AttributeError
              (quoted ''Namespace'' @ '' object has no attribute '' @ quoted ''playbook'') None),
      [])"

fun handle_configure :: "parsed_args \<Rightarrow> exn option \<times> effect list" where
  "handle_configure (ProvisionArgs playbook inventory_file extra_vars) =
     (None, [Log INFO (''Configuring servers using playbook: '' @ playbook)])"
| "handle_configure (ConfigureArgs playbook inventory_file extra_vars) =
     (None, [Log INFO (''Configuring servers using playbook: '' @ playbook)])"
| "handle_configure _ =
     (Some (Exn AttributeError
              (quoted ''Namespace'' @ '' object has no attribute '' @ quoted ''playbook'') None),
      [])"

definition command_handlers ::
  "(string \<times> (parsed_args \<Rightarrow> exn option \<times> effect list)) list" where
  "command_handlers =
     [(''inventory'', handle_inventory),
      (''provision'', handle_provision),
      (''configure'', handle_configure)]"

text \<open>
  \<^verbatim>\<open>main\<close> after \<^verbatim>\<open>parse_args\<close>: the exit code and the effects, in
  order. The \<^verbatim>\<open>except Exception\<close> at the end logs and returns 1.
\<close>

definition main_try ::
  "nat \<times> nat \<Rightarrow> (string \<Rightarrow> string option) \<Rightarrow> parsed_args
     \<Rightarrow> (exn + int) \<times> effect list" where
  "main_try version_info environ args =
     (case command args of
        None \<Rightarrow> (Inr 1, [PrintHelp])
      | Some c \<Rightarrow>
          if c = [] then (Inr 1, [PrintHelp])
          else
            (case validate_environment version_info environ of
               (Some e, effs) \<Rightarrow> (Inl e, effs)
             | (None, effs) \<Rightarrow>
                 (case map_of command_handlers c of
                    Some handler \<Rightarrow>
                      (case handler args of
                         (Some e, effs') \<Rightarrow> (Inl e, effs @ effs')
                       | (None, effs') \<Rightarrow> (Inr 0, effs @ effs'))
                  | None \<Rightarrow> (Inr 1, effs @ [Log ERROR (''Unknown command: '' @ c)]))))"

definition main ::
  "nat \<times> nat \<Rightarrow> (string \<Rightarrow> string option) \<Rightarrow> parsed_args \<Rightarrow> int \<times> effect list" where
  "main version_info environ args =
     (case main_try version_info environ args of
        (Inr code, effs) \<Rightarrow> (code, effs)
      | (Inl e, effs) \<Rightarrow>
          if isinstance e Exception
          then (1, effs @ [Log ERROR (''An error occurred: '' @ str e)])
          else (1, effs))"

text \<open>
  Running \<^verbatim>\<open>main.py\<close>: the statements at the top of the module (the imports
  from \<^verbatim>\<open>python.src\<close> and the logging set-up) either complete or raise, and
  an exception there ends the process with status 1 before \<^verbatim>\<open>main\<close> is
  reached; otherwise the status is what \<^verbatim>\<open>main\<close> returns.
\<close>

definition run_module ::
  "bool \<Rightarrow> nat \<times> nat \<Rightarrow> (string \<Rightarrow> string option) \<Rightarrow> parsed_args \<Rightarrow> int \<times> effect list" where
  "run_module module_loads version_info environ args =
     (if module_loads then main version_info environ args else (1, []))"

fun is_log :: "effect \<Rightarrow> bool" where
  "is_log (Log level message) = True"
| "is_log _ = False"

section \<open>Example data\<close>

text \<open>
  Instance records in the shape of the fixture of \<^verbatim>\<open>tests/test_aws_inventory.py\<close>:
  a tagged web server, an untagged instance, two further records that reuse the id
  \<^verbatim>\<open>i-1\<close>, and a record whose public address is the empty string.
\<close>

definition web1 :: instance_info where
  "web1 = \<lparr> id' = ''i-1'', type' = ''t2.micro'', state = ''running'',
            private_ip = Some ''10.0.0.1'', public_ip = Some ''54.0.0.1'',
            tags = [(''Role'', ''webserver'')] \<rparr>"

definition plain2 :: instance_info where
  "plain2 = \<lparr> id' = ''i-2'', type' = ''t2.small'', state = ''running'',
              private_ip = Some ''10.0.0.2'', public_ip = None, tags = [] \<rparr>"

definition plain1 :: instance_info where
  "plain1 = \<lparr> id' = ''i-1'', type' = ''t2.small'', state = ''running'',
              private_ip = Some ''10.0.0.2'', public_ip = None, tags = [] \<rparr>"

definition web1b :: instance_info where
  "web1b = \<lparr> id' = ''i-1'', type' = ''t2.large'', state = ''running'',
             private_ip = Some ''10.0.0.7'', public_ip = Some ''54.0.0.7'',
             tags = [(''Role'', ''webserver'')] \<rparr>"

definition empty_public :: instance_info where
  "empty_public = \<lparr> id' = ''i-3'', type' = ''t2.nano'', state = ''running'',
                    private_ip = Some ''10.0.0.3'', public_ip = Some [], tags = [] \<rparr>"

definition raw_running :: ec2_instance where
  "raw_running =
     \<lparr> InstanceId = ''i-1'', InstanceType = ''t2.micro'', State_Name = ''running'',
       PrivateIpAddress = Some ''10.0.0.1'', PublicIpAddress = Some ''54.0.0.1'',
       Tags = Some [(''Name'', ''test-instance''), (''Role'', ''webserver'')] \<rparr>"

definition raw_stopped :: ec2_instance where
  "raw_stopped =
     \<lparr> InstanceId = ''i-9'', InstanceType = ''t2.small'', State_Name = ''stopped'',
       PrivateIpAddress = Some ''10.0.0.9'', PublicIpAddress = None, Tags = None \<rparr>"

text \<open>
  A key directory \<^verbatim>\<open>/k\<close>, with and without the private key \<^verbatim>\<open>id\<close>,
  and stand-ins for the external programs: a key generator that writes both key
  files at the path given after \<^verbatim>\<open>-f\<close>, an SSH client that exits with a
  given code, and one whose invocation raises.
\<close>

definition manager :: ssh_manager where
  "manager = \<lparr> key_dir = ''/k'' \<rparr>"

definition key_files :: fs where
  "key_files =
     [''/k/id'' \<mapsto> RegFile 384 ''PRIVATE KEY'',
      ''/k/id.pub'' \<mapsto> RegFile 420 ('' ssh-ed25519 AAAA user@host'' @ [CHR 0x0A])]"

definition pub_only_files :: fs where
  "pub_only_files =
     [''/k/id.pub'' \<mapsto> RegFile 420 ('' ssh-ed25519 AAAA user@host'' @ [CHR 0x0A])]"






definition fake_keygen :: subprocess where
  "fake_keygen args fls =
     (let p = cmd args ! 4
      in (Inr \<lparr> returncode = 0, stdout = [], stderr = [] \<rparr>,
          fls(p \<mapsto> RegFile 384 ''PRIVATE KEY'',
              p @ ''.pub'' \<mapsto> RegFile 420 ''ssh-ed25519 AAAA'')))"

definition ssh_exits :: "int \<Rightarrow> subprocess" where
  "ssh_exits rc args fls = (Inr \<lparr> returncode = rc, stdout = [], stderr = [] \<rparr>, fls)"

definition ssh_raises :: "exn \<Rightarrow> subprocess" where
  "ssh_raises e args fls = (Inl e, fls)"

section \<open>Properties of inventory generation\<close>

subsection \<open>Exception matching\<close>

lemma isinstance_simps:
  "isinstance (Exn c m k) d = List.member (mro c) d"
  "isinstance (ClientErr m a b) d = List.member (mro ClientError) d"
  "isinstance (CalledProcessErr m s) d = List.member (mro CalledProcessError) d"
  by (simp_all add: isinstance_def)

lemma isinstance_Exception: "isinstance e Exception"
proof -
  have "List.member (mro c) Exception" for c
    by (cases c) simp_all
  then show ?thesis by (simp add: isinstance_def)
qed

subsection \<open>The loop of \<^verbatim>\<open>generate_inventory\<close>\<close>

lemma all_hosts_add_instance:
  "all_hosts (add_instance inventory x) =
     AList.update (id' x) (host_vars_of x) (all_hosts inventory)"
  by (simp add: add_instance_def Let_def)

lemma webservers_hosts_add_instance:
  "webservers_hosts (add_instance inventory x) =
     (if is_webserver x
      then AList.update (id' x) (host_vars_of x) (webservers_hosts inventory)
      else webservers_hosts inventory)"
  by (simp add: add_instance_def Let_def)

text \<open>Later records with other ids leave an entry alone.\<close>

lemma all_hosts_other:
  "k \<notin> id' ` set ys \<Longrightarrow>
     map_of (all_hosts (foldl add_instance inventory ys)) k = map_of (all_hosts inventory) k"
  by (induction ys arbitrary: inventory) (simp_all add: all_hosts_add_instance update_conv')

lemma webservers_hosts_other:
  "\<forall>y \<in> set ys. id' y = k \<longrightarrow> \<not> is_webserver y \<Longrightarrow>
     map_of (webservers_hosts (foldl add_instance inventory ys)) k =
     map_of (webservers_hosts inventory) k"
  by (induction ys arbitrary: inventory)
     (simp_all add: webservers_hosts_add_instance update_conv')

lemma all_hosts_last:
  assumes "id' x \<notin> id' ` set post"
  shows "map_of (all_hosts (foldl add_instance (add_instance inventory x) post)) (id' x) =
           Some (host_vars_of x)"
  using assms by (simp add: all_hosts_other all_hosts_add_instance update_conv')

lemma webservers_hosts_last:
  assumes "\<forall>y \<in> set post. id' y = id' x \<longrightarrow> \<not> is_webserver y" and "is_webserver x"
  shows "map_of (webservers_hosts (foldl add_instance (add_instance inventory x) post)) (id' x) =
           Some (host_vars_of x)"
  using assms by (simp add: webservers_hosts_other webservers_hosts_add_instance update_conv')

text \<open>The key sets of the two dictionaries after the loop.\<close>

lemma all_hosts_keys:
  "fst ` set (all_hosts (foldl add_instance inventory xs)) =
     fst ` set (all_hosts inventory) \<union> id' ` set xs"
  by (induction xs arbitrary: inventory) (auto simp: all_hosts_add_instance dom_update)

lemma webservers_hosts_keys:
  "fst ` set (webservers_hosts (foldl add_instance inventory xs)) =
     fst ` set (webservers_hosts inventory) \<union> id' ` {y \<in> set xs. is_webserver y}"
  by (induction xs arbitrary: inventory) (auto simp: webservers_hosts_add_instance dom_update)

text \<open>Whatever is stored under an id was computed from a record with that id.\<close>

lemma all_hosts_stored:
  "k \<in> id' ` set xs \<Longrightarrow>
     \<exists>y \<in> set xs. id' y = k \<and>
        map_of (all_hosts (foldl add_instance inventory xs)) k = Some (host_vars_of y)"
proof (induction xs rule: rev_induct)
  case Nil
  then show ?case by simp
next
  case (snoc z zs)
  show ?case
  proof (cases "id' z = k")
    case True
    then show ?thesis by (auto simp: all_hosts_add_instance update_conv')
  next
    case False
    with snoc.prems have "k \<in> id' ` set zs" by auto
    from snoc.IH [OF this] False show ?thesis
      by (auto simp: all_hosts_add_instance update_conv')
  qed
qed

text \<open>
  C4: for every input list, each id in the hosts of the child group
  \<^verbatim>\<open>webservers\<close> is also an id in \<^verbatim>\<open>all.hosts\<close>.
\<close>

theorem child_hosts_subset_all_hosts:
  "fst ` set (webservers_hosts (build_inventory instances))
     \<subseteq> fst ` set (all_hosts (build_inventory instances))"
  by (auto simp: build_inventory_def all_hosts_keys webservers_hosts_keys empty_inventory_def)

theorem child_hosts_subset_all_hosts_witness:
  "fst ` set (webservers_hosts (build_inventory [web1, plain2])) = {''i-1''} \<and>
   fst ` set (all_hosts (build_inventory [web1, plain2])) = {''i-1'', ''i-2''} \<and>
   fst ` set (webservers_hosts (build_inventory [web1, plain2]))
     \<subseteq> fst ` set (all_hosts (build_inventory [web1, plain2]))"
  using child_hosts_subset_all_hosts [of "[web1, plain2]"]
  by (simp add: build_inventory_def empty_inventory_def add_instance_def Let_def
        is_webserver_def web1_def plain2_def)

text \<open>
  C8: when an id occurs several times, the entry of \<^verbatim>\<open>all.hosts\<close> under
  that id holds the HostVars of its last occurrence \<open>x\<close> in input order, and when
  \<open>x\<close> carries the tag \<^verbatim>\<open>Role=webserver\<close> so does the entry of
  \<^verbatim>\<open>all.children.webservers.hosts\<close>.
\<close>

theorem duplicate_id_last_write_wins:
  assumes "instances = pre @ x # post" and "id' x \<notin> id' ` set post"
  shows "map_of (all_hosts (build_inventory instances)) (id' x) = Some (host_vars_of x) \<and>
         (is_webserver x \<longrightarrow>
            map_of (webservers_hosts (build_inventory instances)) (id' x)
              = Some (host_vars_of x))"
proof -
  have "\<forall>y \<in> set post. id' y = id' x \<longrightarrow> \<not> is_webserver y"
    using assms(2) by (metis imageI)
  then show ?thesis
    unfolding build_inventory_def assms(1)
    using assms(2) by (simp add: all_hosts_last webservers_hosts_last)
qed

theorem duplicate_id_last_write_wins_witness:
  "map_of (all_hosts (build_inventory [web1, web1b, plain2])) ''i-1''
     = Some (host_vars_of web1b) \<and>
   map_of (webservers_hosts (build_inventory [web1, web1b, plain2])) ''i-1''
     = Some (host_vars_of web1b) \<and>
   host_vars_of web1b \<noteq> host_vars_of web1"
  using duplicate_id_last_write_wins [of "[web1, web1b, plain2]" "[web1]" web1b "[plain2]"]
  by (simp add: is_webserver_def host_vars_of_def web1_def web1b_def plain2_def)

text \<open>
  C1, as the loop behaves: for a record \<open>x\<close> of the input whose id no other record
  of the input carries, \<^verbatim>\<open>all.hosts\<close> holds the HostVars of \<open>x\<close> under its
  id, and \<^verbatim>\<open>all.children.webservers.hosts\<close> holds the same HostVars under that
  id exactly when \<^verbatim>\<open>tags.get("Role") == "webserver"\<close>, and nothing otherwise.
\<close>

theorem webserver_grouping_unshared_id:
  assumes "x \<in> set instances"
    and "\<forall>y \<in> set instances. id' y = id' x \<longrightarrow> y = x"
  shows "map_of (all_hosts (build_inventory instances)) (id' x) = Some (host_vars_of x) \<and>
         map_of (webservers_hosts (build_inventory instances)) (id' x) =
           (if is_webserver x then Some (host_vars_of x) else None)"
proof -
  from assms(1) obtain pre post where split: "instances = pre @ x # post" and "x \<notin> set post"
    by (auto dest: split_list_last)
  with assms(2) have fresh: "id' x \<notin> id' ` set post" by auto
  have hosts: "map_of (all_hosts (build_inventory instances)) (id' x) = Some (host_vars_of x)"
    unfolding build_inventory_def split using fresh by (simp add: all_hosts_last)
  show ?thesis
  proof (cases "is_webserver x")
    case True
    moreover have "\<forall>y \<in> set post. id' y = id' x \<longrightarrow> \<not> is_webserver y"
      using fresh by (metis imageI)
    ultimately have "map_of (webservers_hosts (build_inventory instances)) (id' x) =
        Some (host_vars_of x)"
      unfolding build_inventory_def split by (simp add: webservers_hosts_last)
    with hosts True show ?thesis by simp
  next
    case False
    with assms(2) have "\<forall>y \<in> set instances. id' y = id' x \<longrightarrow> \<not> is_webserver y"
      by auto
    then have "map_of (webservers_hosts (build_inventory instances)) (id' x) = None"
      unfolding build_inventory_def
      by (simp add: webservers_hosts_other empty_inventory_def)
    with hosts False show ?thesis by simp
  qed
qed

theorem webserver_grouping_unshared_id_witness:
  "map_of (all_hosts (build_inventory [web1, plain2])) ''i-1'' = Some (host_vars_of web1) \<and>
   map_of (webservers_hosts (build_inventory [web1, plain2])) ''i-1''
     = Some (host_vars_of web1) \<and>
   map_of (all_hosts (build_inventory [web1, plain2])) ''i-2'' = Some (host_vars_of plain2) \<and>
   map_of (webservers_hosts (build_inventory [web1, plain2])) ''i-2'' = None"
  using webserver_grouping_unshared_id [of web1 "[web1, plain2]"]
    webserver_grouping_unshared_id [of plain2 "[web1, plain2]"]
  by (simp add: is_webserver_def web1_def plain2_def)

text \<open>
  C1 as stated fails when an id is shared: in the list \<open>[web1, plain1]\<close> the
  untagged record \<open>plain1\<close> has its id in the \<^verbatim>\<open>webservers\<close> hosts, with
  the HostVars of \<open>web1\<close>, and for the tagged record \<open>web1\<close> the values stored in
  the two locations differ.
\<close>

theorem webserver_grouping_counterexample:
  "plain1 \<in> set [web1, plain1] \<and> \<not> is_webserver plain1 \<and>
   map_of (webservers_hosts (build_inventory [web1, plain1])) (id' plain1)
     = Some (host_vars_of web1) \<and>
   web1 \<in> set [web1, plain1] \<and> is_webserver web1 \<and>
   map_of (all_hosts (build_inventory [web1, plain1])) (id' web1)
     \<noteq> map_of (webservers_hosts (build_inventory [web1, plain1])) (id' web1)"
  by (simp add: build_inventory_def empty_inventory_def add_instance_def Let_def
        is_webserver_def host_vars_of_def py_or_def web1_def plain1_def)

text \<open>
  C2, as the expression \<^verbatim>\<open>public_ip or private_ip\<close> behaves: every record of
  the input has an entry in \<^verbatim>\<open>all.hosts\<close> under its id (it is never rejected),
  and its \<^verbatim>\<open>ansible_host\<close> is the public address when that is present and not
  the empty string, and the private address, present or not, in every other case.
\<close>

theorem ansible_host_truthy_choice:
  assumes "x \<in> set instances"
  shows "(\<exists>y \<in> set instances. id' y = id' x \<and>
            map_of (all_hosts (build_inventory instances)) (id' x) = Some (host_vars_of y)) \<and>
         ansible_host (host_vars_of x) =
           (case public_ip x of
              None \<Rightarrow> private_ip x
            | Some s \<Rightarrow> if s = [] then private_ip x else Some s)"
proof -
  from assms have "id' x \<in> id' ` set instances" by simp
  then have "\<exists>y \<in> set instances. id' y = id' x \<and>
      map_of (all_hosts (build_inventory instances)) (id' x) = Some (host_vars_of y)"
    unfolding build_inventory_def by (rule all_hosts_stored)
  moreover have "ansible_host (host_vars_of x) =
      (case public_ip x of None \<Rightarrow> private_ip x
       | Some s \<Rightarrow> if s = [] then private_ip x else Some s)"
    by (simp add: host_vars_of_def py_or_def split: option.splits)
  ultimately show ?thesis by simp
qed

theorem ansible_host_truthy_choice_witness:
  "ansible_host (host_vars_of web1) = Some ''54.0.0.1'' \<and>
   ansible_host (host_vars_of plain2) = Some ''10.0.0.2'' \<and>
   ansible_host (host_vars_of empty_public) = Some ''10.0.0.3'' \<and>
   (\<exists>y \<in> set [web1, plain2, empty_public]. id' y = id' empty_public \<and>
      map_of (all_hosts (build_inventory [web1, plain2, empty_public])) (id' empty_public)
        = Some (host_vars_of y))"
  using ansible_host_truthy_choice [of web1 "[web1, plain2, empty_public]"]
    ansible_host_truthy_choice [of plain2 "[web1, plain2, empty_public]"]
    ansible_host_truthy_choice [of empty_public "[web1, plain2, empty_public]"]
  by (simp add: web1_def plain2_def empty_public_def)

text \<open>
  C2 as stated fails for a public address that is present but empty: the record
  \<open>empty_public\<close> gets its private address as \<^verbatim>\<open>ansible_host\<close>.
\<close>

theorem ansible_host_empty_public_ip_counterexample:
  "public_ip empty_public = Some [] \<and>
   ansible_host (host_vars_of empty_public) \<noteq> public_ip empty_public \<and>
   ansible_host (host_vars_of empty_public) = Some ''10.0.0.3''"
  by (simp add: host_vars_of_def py_or_def empty_public_def)

subsection \<open>\<^verbatim>\<open>get_instances\<close>\<close>

lemma collect_inner:
  "concat (map (\<lambda>i. if State_Name i = ''running'' then [instance_info_of i] else []) l) =
     map instance_info_of (filter (\<lambda>i. State_Name i = ''running'') l)"
  by (induction l) simp_all

lemma collect_running_eq:
  "collect_running response =
     map instance_info_of
       (filter (\<lambda>i. State_Name i = ''running'') (concat (map Instances response)))"
  unfolding collect_running_def
  by (induction response) (simp_all add: collect_inner)

text \<open>
  C7: when the provider answers and at least one instance is running, the listing
  returns the records of exactly the instances whose state is the string
  \<^verbatim>\<open>running\<close>, in the order of the response; the instances in any other state
  are left out and raise nothing.
\<close>

theorem get_instances_keeps_running_only:
  assumes "describe_instances (case filters of None \<Rightarrow> [] | Some fs \<Rightarrow> fs) = Inr response"
    and "\<exists>i \<in> set (concat (map Instances response)). State_Name i = ''running''"
  shows "get_instances describe_instances filters =
           Inr (map instance_info_of
                  (filter (\<lambda>i. State_Name i = ''running'') (concat (map Instances response))))"
proof -
  have "filter (\<lambda>i. State_Name i = ''running'') (concat (map Instances response)) \<noteq> []"
    using assms(2) by (simp add: filter_empty_conv)
  then have "collect_running response \<noteq> []"
    by (simp add: collect_running_eq)
  with assms(1) show ?thesis
    by (simp add: get_instances_def get_instances_try_def Let_def collect_running_eq)
qed

theorem get_instances_keeps_running_only_witness:
  "get_instances
     (\<lambda>_. Inr [\<lparr> Instances = [raw_stopped, raw_running] \<rparr>, \<lparr> Instances = [raw_stopped] \<rparr>])
     None
   = Inr [instance_info_of raw_running]"
  using get_instances_keeps_running_only
    [of "\<lambda>_. Inr [\<lparr> Instances = [raw_stopped, raw_running] \<rparr>, \<lparr> Instances = [raw_stopped] \<rparr>]"
        None "[\<lparr> Instances = [raw_stopped, raw_running] \<rparr>, \<lparr> Instances = [raw_stopped] \<rparr>]"]
  by (simp add: raw_running_def raw_stopped_def)

text \<open>
  C3: with no running instance the \<^verbatim>\<open>ResourceNotFoundError\<close> raised in the
  \<^verbatim>\<open>try\<close> block of \<^verbatim>\<open>get_instances\<close> is caught by its own
  \<^verbatim>\<open>except Exception\<close> handler, so the caller sees a
  \<^verbatim>\<open>CloudProviderError\<close> whose cause is the \<^verbatim>\<open>ResourceNotFoundError\<close>;
  \<^verbatim>\<open>generate_inventory\<close> wraps that in an \<^verbatim>\<open>InventoryError\<close>.
\<close>

theorem get_instances_none_running_raises_CloudProviderError:
  "get_instances (\<lambda>_. Inr [\<lparr> Instances = [raw_stopped] \<rparr>]) None =
     Inl (Exn CloudProviderError
            ''Unexpected error getting EC2 instances: No running EC2 instances found''
            (Some (Exn ResourceNotFoundError ''No running EC2 instances found'' None))) \<and>
   fst (generate_inventory (\<lambda>_. Inr [\<lparr> Instances = [raw_stopped] \<rparr>]) (\<lambda>_. None)
          ''inventory.json'' Map.empty) =
     Some (Exn InventoryError
       ''Failed to generate inventory: Unexpected error getting EC2 instances: No running EC2 instances found''
       (Some (Exn CloudProviderError
            ''Unexpected error getting EC2 instances: No running EC2 instances found''
            (Some (Exn ResourceNotFoundError ''No running EC2 instances found'' None)))))"
  by (simp add: generate_inventory_def generate_inventory_try_def
        get_instances_def get_instances_try_def collect_running_def Let_def
        isinstance_simps raw_stopped_def)

section \<open>Properties of SSH key management\<close>

subsection \<open>Paths and files\<close>


lemma chmod_Inr_exists:
  "chmod p m fls = Inr fls' \<Longrightarrow> fls' p \<noteq> None"
  by (auto simp: chmod_def split: option.splits fnode.splits)

lemma chmod_Inr_keeps:
  "chmod p m fls = Inr fls' \<Longrightarrow> fls q \<noteq> None \<Longrightarrow> fls' q \<noteq> None"
  by (auto simp: chmod_def split: option.splits fnode.splits)

subsection \<open>\<^verbatim>\<open>get_public_key\<close>\<close>






subsection \<open>\<^verbatim>\<open>generate_key_pair\<close>\<close>

lemma generate_key_pair_present:
  "path_exists (files w) (path_join (key_dir self) key_name) \<Longrightarrow>
     generate_key_pair run self key_name passphrase w =
       (Inr (path_join (key_dir self) key_name, path_join (key_dir self) key_name @ ''.pub''),
        w)"
  by (simp add: generate_key_pair_def Let_def)

text \<open>A call that returns leaves the private key file in place.\<close>

lemma generate_key_pair_success:
  assumes "generate_key_pair run self key_name passphrase w = (Inr paths, w')"
  shows "paths =
           (path_join (key_dir self) key_name, path_join (key_dir self) key_name @ ''.pub'')
         \<and> path_exists (files w') (path_join (key_dir self) key_name)"
proof (cases "path_exists (files w) (path_join (key_dir self) key_name)")
  case True
  with assms show ?thesis by (simp add: generate_key_pair_present)
next
  case False
  with assms obtain w1 files2 files3 where
      priv: "chmod (path_join (key_dir self) key_name) 384 (files w1) = Inr files2"
    and pub: "chmod (path_join (key_dir self) key_name @ ''.pub'') 420 files2 = Inr files3"
    and paths: "paths =
        (path_join (key_dir self) key_name, path_join (key_dir self) key_name @ ''.pub'')"
    and w': "w' = w1\<lparr> files := files3 \<rparr>"
    by (auto simp: generate_key_pair_def Let_def split: prod.splits sum.splits)
  from chmod_Inr_exists [OF priv] have "files2 (path_join (key_dir self) key_name) \<noteq> None" .
  with chmod_Inr_keeps [OF pub] have "files3 (path_join (key_dir self) key_name) \<noteq> None" .
  with paths w' show ?thesis by (simp add: path_exists_def)
qed

text \<open>
  C5: when the private key file of a name exists, \<^verbatim>\<open>generate_key_pair\<close> returns
  the pair of paths and leaves the world as it was, the record of external invocations
  included; and after any call that returned a pair, a further call for the same name
  (with any passphrase) returns that same pair and again changes nothing, so the key
  generator is not run a second time.
\<close>

theorem generate_key_pair_idempotent:
  "(path_exists (files w) (path_join (key_dir self) key_name) \<longrightarrow>
      generate_key_pair run self key_name passphrase w =
        (Inr (path_join (key_dir self) key_name,
              path_join (key_dir self) key_name @ ''.pub''), w)) \<and>
   (fst (generate_key_pair run self key_name passphrase w) = Inr paths \<longrightarrow>
      generate_key_pair run' self key_name passphrase'
          (snd (generate_key_pair run self key_name passphrase w))
        = (Inr paths, snd (generate_key_pair run self key_name passphrase w)))"
proof -
  have second: "generate_key_pair run' self key_name passphrase'
          (snd (generate_key_pair run self key_name passphrase w))
        = (Inr paths, snd (generate_key_pair run self key_name passphrase w))"
    if ok: "fst (generate_key_pair run self key_name passphrase w) = Inr paths"
  proof -
    obtain w' where first: "generate_key_pair run self key_name passphrase w = (Inr paths, w')"
      using ok by (metis prod.collapse)
    from generate_key_pair_success [OF first] show ?thesis
      by (simp add: first generate_key_pair_present)
  qed
  then show ?thesis by (simp add: generate_key_pair_present)
qed

theorem generate_key_pair_idempotent_witness:
  "fst (generate_key_pair fake_keygen manager ''k1'' None \<lparr> files = Map.empty, calls = [] \<rparr>)
     = Inr (''/k/k1'', ''/k/k1.pub'') \<and>
   generate_key_pair fake_keygen manager ''k1'' (Some ''secret'')
       (snd (generate_key_pair fake_keygen manager ''k1'' None
               \<lparr> files = Map.empty, calls = [] \<rparr>))
     = (Inr (''/k/k1'', ''/k/k1.pub''),
        snd (generate_key_pair fake_keygen manager ''k1'' None
               \<lparr> files = Map.empty, calls = [] \<rparr>)) \<and>
   length (calls (snd (generate_key_pair fake_keygen manager ''k1'' None
                          \<lparr> files = Map.empty, calls = [] \<rparr>))) = 1"
proof -
  have first:
    "fst (generate_key_pair fake_keygen manager ''k1'' None \<lparr> files = Map.empty, calls = [] \<rparr>)
       = Inr (''/k/k1'', ''/k/k1.pub'')"
    by (simp add: generate_key_pair_def Let_def path_exists_def path_join_def manager_def
          subprocess_run_def fake_keygen_def chmod_def)
  have count:
    "length (calls (snd (generate_key_pair fake_keygen manager ''k1'' None
                           \<lparr> files = Map.empty, calls = [] \<rparr>))) = 1"
    by (simp add: generate_key_pair_def Let_def path_exists_def path_join_def manager_def
          subprocess_run_def fake_keygen_def chmod_def)
  from generate_key_pair_idempotent
    [of "\<lparr> files = Map.empty, calls = [] \<rparr>" manager "''k1''" fake_keygen None
        "(''/k/k1'', ''/k/k1.pub'')" fake_keygen "Some ''secret''"]
    first count
  show ?thesis by simp
qed

subsection \<open>\<^verbatim>\<open>verify_connectivity\<close>\<close>

text \<open>
  C6: without the private key file \<^verbatim>\<open>verify_connectivity\<close> raises
  \<^verbatim>\<open>ResourceNotFoundError\<close> and runs nothing. With it, the SSH client is invoked
  once, with a timeout of 10, and the result is \<^verbatim>\<open>True\<close> exactly when the
  client returns with exit code zero, \<^verbatim>\<open>False\<close> when it returns with another code
  or the invocation raises \<^verbatim>\<open>TimeoutExpired\<close> (or
  \<^verbatim>\<open>CalledProcessError\<close>), and an \<^verbatim>\<open>SSHManagerError\<close> wrapping the
  exception for every other exception.
\<close>

theorem verify_connectivity_outcomes:
  "(\<not> path_exists (files w) (path_join (key_dir self) key_name) \<longrightarrow>
      verify_connectivity run self host user key_name port w =
        (Inl (Exn ResourceNotFoundError
                (''Private key not found: '' @ path_join (key_dir self) key_name) None), w)) \<and>
   (path_exists (files w) (path_join (key_dir self) key_name) \<longrightarrow>
      calls (snd (verify_connectivity run self host user key_name port w)) =
        calls w @ [\<lparr> cmd = ssh_cmd (path_join (key_dir self) key_name) port user host,
                  check = False, timeout = Some 10 \<rparr>] \<and>
      (case fst (run \<lparr> cmd = ssh_cmd (path_join (key_dir self) key_name) port user host,
                  check = False, timeout = Some 10 \<rparr> (files w)) of
         Inr result \<Rightarrow>
           fst (verify_connectivity run self host user key_name port w)
             = Inr (returncode result = 0)
       | Inl e \<Rightarrow>
           if isinstance e TimeoutExpired \<or> isinstance e CalledProcessError
           then fst (verify_connectivity run self host user key_name port w) = Inr False
           else fst (verify_connectivity run self host user key_name port w) =
                  Inl (Exn SSHManagerError
                         (''Unexpected error connecting to '' @ host @ '': '' @ str e)
                         (Some e))))"
proof -
  have absent: "\<not> path_exists (files w) (path_join (key_dir self) key_name) \<longrightarrow>
      verify_connectivity run self host user key_name port w =
        (Inl (Exn ResourceNotFoundError
                (''Private key not found: '' @ path_join (key_dir self) key_name) None), w)"
    by (simp add: verify_connectivity_def Let_def)
  have present: "calls (snd (verify_connectivity run self host user key_name port w)) =
        calls w @ [\<lparr> cmd = ssh_cmd (path_join (key_dir self) key_name) port user host,
                  check = False, timeout = Some 10 \<rparr>] \<and>
      (case fst (run \<lparr> cmd = ssh_cmd (path_join (key_dir self) key_name) port user host,
                  check = False, timeout = Some 10 \<rparr> (files w)) of
         Inr result \<Rightarrow>
           fst (verify_connectivity run self host user key_name port w)
             = Inr (returncode result = 0)
       | Inl e \<Rightarrow>
           if isinstance e TimeoutExpired \<or> isinstance e CalledProcessError
           then fst (verify_connectivity run self host user key_name port w) = Inr False
           else fst (verify_connectivity run self host user key_name port w) =
                  Inl (Exn SSHManagerError
                         (''Unexpected error connecting to '' @ host @ '': '' @ str e)
                         (Some e)))"
    if here: "path_exists (files w) (path_join (key_dir self) key_name)"
  proof (cases "run \<lparr> cmd = ssh_cmd (path_join (key_dir self) key_name) port user host,
                  check = False, timeout = Some 10 \<rparr> (files w)")
    case (Pair r files')
    show ?thesis
    proof (cases r)
      case (Inl e)
      with Pair here show ?thesis
        by (simp add: verify_connectivity_def Let_def subprocess_run_def isinstance_Exception)
    next
      case (Inr result)
      with Pair here show ?thesis
        by (simp add: verify_connectivity_def Let_def subprocess_run_def)
    qed
  qed
  from absent present show ?thesis by blast
qed

theorem verify_connectivity_outcomes_witness:
  "fst (verify_connectivity (ssh_exits 0) manager ''10.0.0.1'' ''ubuntu'' ''id'' 22
          \<lparr> files = key_files, calls = [] \<rparr>) = Inr True \<and>
   fst (verify_connectivity (ssh_exits 255) manager ''10.0.0.1'' ''ubuntu'' ''id'' 22
          \<lparr> files = key_files, calls = [] \<rparr>) = Inr False \<and>
   fst (verify_connectivity (ssh_raises (Exn TimeoutExpired ''timed out after 10 seconds'' None))
          manager ''10.0.0.1'' ''ubuntu'' ''id'' 22
          \<lparr> files = key_files, calls = [] \<rparr>) = Inr False \<and>
   fst (verify_connectivity (ssh_raises (Exn FileNotFoundError ''ssh'' None))
          manager ''10.0.0.1'' ''ubuntu'' ''id'' 22
          \<lparr> files = key_files, calls = [] \<rparr>)
     = Inl (Exn SSHManagerError ''Unexpected error connecting to 10.0.0.1: ssh''
              (Some (Exn FileNotFoundError ''ssh'' None))) \<and>
   verify_connectivity (ssh_exits 0) manager ''10.0.0.1'' ''ubuntu'' ''id'' 22
          \<lparr> files = pub_only_files, calls = [] \<rparr>
     = (Inl (Exn ResourceNotFoundError ''Private key not found: /k/id'' None),
        \<lparr> files = pub_only_files, calls = [] \<rparr>)"
  using
    verify_connectivity_outcomes [of "\<lparr> files = key_files, calls = [] \<rparr>" manager "''id''"
      "ssh_exits 0" "''10.0.0.1''" "''ubuntu''" 22]
    verify_connectivity_outcomes [of "\<lparr> files = key_files, calls = [] \<rparr>" manager "''id''"
      "ssh_exits 255" "''10.0.0.1''" "''ubuntu''" 22]
    verify_connectivity_outcomes [of "\<lparr> files = key_files, calls = [] \<rparr>" manager "''id''"
      "ssh_raises (Exn TimeoutExpired ''timed out after 10 seconds'' None)"
      "''10.0.0.1''" "''ubuntu''" 22]
    verify_connectivity_outcomes [of "\<lparr> files = key_files, calls = [] \<rparr>" manager "''id''"
      "ssh_raises (Exn FileNotFoundError ''ssh'' None)" "''10.0.0.1''" "''ubuntu''" 22]
    verify_connectivity_outcomes [of "\<lparr> files = pub_only_files, calls = [] \<rparr>" manager "''id''"
      "ssh_exits 0" "''10.0.0.1''" "''ubuntu''" 22]
  by (simp add: path_exists_def path_join_def manager_def key_files_def pub_only_files_def
        ssh_exits_def ssh_raises_def isinstance_simps)

section \<open>Properties of the command line\<close>

lemma missing_warnings_are_logs: "\<forall>eff \<in> set (missing_warnings environ). is_log eff"
  by (auto simp: missing_warnings_def Let_def split: if_splits)

text \<open>
  C9, as the handler behaves: running the module with the \<^verbatim>\<open>inventory\<close>
  subcommand has no effect other than log lines, so neither instance listing nor
  inventory generation is invoked and no document is written. When the module loads
  under a supported interpreter, \<^verbatim>\<open>handle_inventory\<close> logs one line after the
  environment warnings and the exit status is 0; when the module does not load, the
  exit status is 1 and nothing else happens.
\<close>

theorem inventory_command_is_stub:
  "(\<forall>eff \<in> set (snd (run_module module_loads version_info environ
                          (InventoryArgs provider region output))). is_log eff) \<and>
   (module_loads \<and> \<not> (fst version_info < 3 \<or> (fst version_info = 3 \<and> snd version_info < 9))
      \<longrightarrow> run_module module_loads version_info environ (InventoryArgs provider region output)
            = (0, missing_warnings environ @
                  [Log INFO (''Generating inventory for '' @ provider @ '' in '' @ region)])) \<and>
   (\<not> module_loads
      \<longrightarrow> run_module module_loads version_info environ (InventoryArgs provider region output)
            = (1, []))"
proof -
  have logs: "\<forall>eff \<in> set (snd (run_module module_loads version_info environ
                          (InventoryArgs provider region output))). is_log eff"
    using missing_warnings_are_logs [of environ]
    by (auto simp: run_module_def main_def main_try_def validate_environment_def
          command_handlers_def isinstance_simps)
  have ok: "module_loads \<and> \<not> (fst version_info < 3 \<or> (fst version_info = 3 \<and> snd version_info < 9))
      \<longrightarrow> run_module module_loads version_info environ (InventoryArgs provider region output)
            = (0, missing_warnings environ @
                  [Log INFO (''Generating inventory for '' @ provider @ '' in '' @ region)])"
    by (simp add: run_module_def main_def main_try_def validate_environment_def
          command_handlers_def)
  have bad: "\<not> module_loads
      \<longrightarrow> run_module module_loads version_info environ (InventoryArgs provider region output)
            = (1, [])"
    by (simp add: run_module_def)
  from logs ok bad show ?thesis by blast
qed

theorem inventory_command_is_stub_witness:
  "run_module True (3, 11) (\<lambda>_. Some ''set'')
     (InventoryArgs ''aws'' ''us-west-2'' ''inventories/inventory.yml'')
     = (0, [Log INFO ''Generating inventory for aws in us-west-2'']) \<and>
   run_module False (3, 11) (\<lambda>_. Some ''set'')
     (InventoryArgs ''aws'' ''us-west-2'' ''inventories/inventory.yml'') = (1, [])"
  using
    inventory_command_is_stub [of True "(3, 11)" "\<lambda>_. Some ''set''" "''aws''" "''us-west-2''"
      "''inventories/inventory.yml''"]
    inventory_command_is_stub [of False "(3, 11)" "\<lambda>_. Some ''set''" "''aws''" "''us-west-2''"
      "''inventories/inventory.yml''"]
  by (simp add: missing_warnings_def required_vars_def getenv_falsy_def)

text \<open>
  C9 as stated fails: \<^verbatim>\<open>inventory --provider aws --region us-west-2\<close> with every
  environment variable set produces a single log line when the module loads, and
  nothing when it does not; \<^verbatim>\<open>generate_aws_inventory\<close> is not among the
  effects.
\<close>

theorem inventory_command_counterexample:
  "snd (run_module True (3, 11) (\<lambda>_. Some ''set'')
          (InventoryArgs ''aws'' ''us-west-2'' ''inventories/inventory.yml''))
     = [Log INFO ''Generating inventory for aws in us-west-2''] \<and>
   Call_generate_aws_inventory ''us-west-2'' ''inventories/inventory.yml''
     \<notin> set (snd (run_module True (3, 11) (\<lambda>_. Some ''set'')
                    (InventoryArgs ''aws'' ''us-west-2'' ''inventories/inventory.yml''))) \<and>
   snd (run_module False (3, 11) (\<lambda>_. Some ''set'')
          (InventoryArgs ''aws'' ''us-west-2'' ''inventories/inventory.yml'')) = []"
  by (simp add: run_module_def main_def main_try_def validate_environment_def
        missing_warnings_def required_vars_def getenv_falsy_def command_handlers_def)

end
